theory Spec2Isabelle
  imports Complex_Main
begin

section \<open>The numeric type \<open>nl_double\<close>\<close>

text \<open>
  The netlist core computes with \<open>nl_double\<close>, a C++ \<open>double\<close>. The model keeps the
  special values of the arithmetic, because the code divides by parameters it never
  checks: a value is a finite number, one of the two infinities, or not-a-number.
  Finite values are exact reals: rounding and overflow of finite results are not
  modelled, and neither is the sign of zero (a zero divisor counts as \<open>+0\<close>).
  The operations on the special values follow the rules of the C++ arithmetic:
  not-a-number absorbs, \<open>\<infinity> - \<infinity>\<close>, \<open>0 \<sqdot> \<infinity>\<close>, \<open>0 / 0\<close> and \<open>\<infinity> / \<infinity>\<close> are not-a-number,
  a nonzero finite value divided by zero is an infinity, a finite value divided by an
  infinity is zero, and every comparison with not-a-number is false. The statements that
  depend on how a finite result is rounded are made on the rounded operations defined
  further down (\<open>add64\<close>, \<open>sub64\<close>, \<open>mul64\<close>, \<open>div64\<close>, \<open>tanh64\<close>).
\<close>

datatype nl_double = Fin real | PInf | NInf | NaN

instantiation nl_double :: "{uminus,plus,minus,times,inverse,abs,ord}"
begin

fun uminus_nl_double :: "nl_double \<Rightarrow> nl_double" where
  "uminus_nl_double (Fin x) = Fin (- x)"
| "uminus_nl_double PInf = NInf"
| "uminus_nl_double NInf = PInf"
| "uminus_nl_double NaN = NaN"

fun plus_nl_double :: "nl_double \<Rightarrow> nl_double \<Rightarrow> nl_double" where
  "plus_nl_double NaN _ = NaN"
| "plus_nl_double _ NaN = NaN"
| "plus_nl_double (Fin x) (Fin y) = Fin (x + y)"
| "plus_nl_double PInf NInf = NaN"
| "plus_nl_double NInf PInf = NaN"
| "plus_nl_double PInf _ = PInf"
| "plus_nl_double NInf _ = NInf"
| "plus_nl_double (Fin x) i = i"

definition minus_nl_double :: "nl_double \<Rightarrow> nl_double \<Rightarrow> nl_double" where
  "minus_nl_double a b = a + (- b)"

fun times_nl_double :: "nl_double \<Rightarrow> nl_double \<Rightarrow> nl_double" where
  "times_nl_double NaN _ = NaN"
| "times_nl_double _ NaN = NaN"
| "times_nl_double (Fin x) (Fin y) = Fin (x * y)"
| "times_nl_double (Fin x) PInf = (if x = 0 then NaN else if 0 < x then PInf else NInf)"
| "times_nl_double (Fin x) NInf = (if x = 0 then NaN else if 0 < x then NInf else PInf)"
| "times_nl_double PInf (Fin y) = (if y = 0 then NaN else if 0 < y then PInf else NInf)"
| "times_nl_double NInf (Fin y) = (if y = 0 then NaN else if 0 < y then NInf else PInf)"
| "times_nl_double PInf PInf = PInf"
| "times_nl_double PInf NInf = NInf"
| "times_nl_double NInf PInf = NInf"
| "times_nl_double NInf NInf = PInf"

fun divide_nl_double :: "nl_double \<Rightarrow> nl_double \<Rightarrow> nl_double" where
  "divide_nl_double NaN _ = NaN"
| "divide_nl_double _ NaN = NaN"
| "divide_nl_double (Fin x) (Fin y) =
     (if y = 0 then (if x = 0 then NaN else if 0 < x then PInf else NInf)
      else Fin (x / y))"
| "divide_nl_double (Fin x) _ = Fin 0"
| "divide_nl_double PInf (Fin y) = (if 0 \<le> y then PInf else NInf)"
| "divide_nl_double NInf (Fin y) = (if 0 \<le> y then NInf else PInf)"
| "divide_nl_double _ _ = NaN"

fun inverse_nl_double :: "nl_double \<Rightarrow> nl_double" where
  "inverse_nl_double (Fin x) = (if x = 0 then PInf else Fin (1 / x))"
| "inverse_nl_double PInf = Fin 0"
| "inverse_nl_double NInf = Fin 0"
| "inverse_nl_double NaN = NaN"

fun abs_nl_double :: "nl_double \<Rightarrow> nl_double" where
  "abs_nl_double (Fin x) = Fin \<bar>x\<bar>"
| "abs_nl_double PInf = PInf"
| "abs_nl_double NInf = PInf"
| "abs_nl_double NaN = NaN"

fun less_nl_double :: "nl_double \<Rightarrow> nl_double \<Rightarrow> bool" where
  "less_nl_double NaN _ = False"
| "less_nl_double _ NaN = False"
| "less_nl_double (Fin x) (Fin y) = (x < y)"
| "less_nl_double (Fin x) PInf = True"
| "less_nl_double (Fin x) NInf = False"
| "less_nl_double PInf _ = False"
| "less_nl_double NInf NInf = False"
| "less_nl_double NInf _ = True"

fun less_eq_nl_double :: "nl_double \<Rightarrow> nl_double \<Rightarrow> bool" where
  "less_eq_nl_double NaN _ = False"
| "less_eq_nl_double _ NaN = False"
| "less_eq_nl_double (Fin x) (Fin y) = (x \<le> y)"
| "less_eq_nl_double (Fin x) PInf = True"
| "less_eq_nl_double (Fin x) NInf = False"
| "less_eq_nl_double PInf PInf = True"
| "less_eq_nl_double PInf _ = False"
| "less_eq_nl_double NInf _ = True"

instance ..

end

text \<open>\<open>std::tanh\<close>: the hyperbolic tangent, with its limits at the infinities.\<close>

fun nl_tanh :: "nl_double \<Rightarrow> nl_double" where
  "nl_tanh (Fin x) = Fin (tanh x)"
| "nl_tanh PInf = Fin 1"
| "nl_tanh NInf = Fin (- 1)"
| "nl_tanh NaN = NaN"

fun is_finite :: "nl_double \<Rightarrow> bool" where
  "is_finite (Fin x) = True"
| "is_finite _ = False"


section \<open>Nets, terminals and the solver's request queue\<close>

text \<open>
  A net exposes whether it is a rail net and its last solved voltage. A terminal of a
  device is attached to one net (named by its index in the netlist), points to its
  opposite terminal (\<open>m_otherterm\<close>, \<open>None\<close> for a null pointer; a \<open>term_ref\<close> is the
  address of one of the six terminals of \<open>nld_VCCS\<close> within its device), and holds the stamp
  written by the last call of \<open>set\<close>. The class of terminals is declared outside the
  sources at hand; the model records a call of \<open>set\<close> with the arguments it was given,
  one constructor for each of the three overloads the devices use:
  \<open>set(G)\<close>, \<open>set(GO, GT)\<close> and \<open>set(GO, GT, I)\<close>.
\<close>

datatype term_ref = IP | IN | OP | ON | OP1 | ON1

datatype stamp =
    Set1 nl_double
  | Set2 nl_double nl_double
  | Set3 nl_double nl_double nl_double

record net_t =
  isRailNet :: bool
  Q_Analog :: nl_double

record terminal_t =
  m_otherterm :: "term_ref option"
  m_net :: nat
  m_stamp :: "stamp option"

text \<open>
  The netlist as the devices see it: the nets by index, and the calls of
  \<open>schedule_solve\<close> received so far, each entry the terminal it was called on, oldest
  first. What the solver does with a request is outside these sources.
\<close>

record netlist_t =
  nets :: "nat \<Rightarrow> net_t"
  schedule_solve_calls :: "term_ref list"

definition net :: "netlist_t \<Rightarrow> terminal_t \<Rightarrow> net_t" where
  "net nl t = nets nl (m_net t)"

definition schedule_solve :: "term_ref \<Rightarrow> netlist_t \<Rightarrow> netlist_t" where
  "schedule_solve t nl = nl\<lparr>schedule_solve_calls := schedule_solve_calls nl @ [t]\<rparr>"

definition set1 :: "nl_double \<Rightarrow> terminal_t \<Rightarrow> terminal_t" where
  "set1 G t = t\<lparr>m_stamp := Some (Set1 G)\<rparr>"

definition set2 :: "nl_double \<Rightarrow> nl_double \<Rightarrow> terminal_t \<Rightarrow> terminal_t" where
  "set2 GO GT t = t\<lparr>m_stamp := Some (Set2 GO GT)\<rparr>"

definition set3 :: "nl_double \<Rightarrow> nl_double \<Rightarrow> nl_double \<Rightarrow> terminal_t \<Rightarrow> terminal_t" where
  "set3 GO GT I t = t\<lparr>m_stamp := Some (Set3 GO GT I)\<rparr>"


section \<open>The devices\<close>

text \<open>
  \<open>nld_VCCS\<close> holds the parameters \<open>G\<close> and \<open>RI\<close> (their current values), the gain
  factor and six terminals. \<open>nld_LVCCS\<close> and \<open>nld_VCVS\<close> extend it, as the derived
  classes do; \<open>nld_CCCS\<close> adds no field that this file uses. A function on
  \<open>'a nld_VCCS_scheme\<close> is a member of the base class: it applies to every variant.
\<close>

record nld_VCCS =
  m_G :: nl_double
  m_RI :: nl_double
  m_gfac :: nl_double
  m_IP :: terminal_t
  m_IN :: terminal_t
  m_OP :: terminal_t
  m_ON :: terminal_t
  m_OP1 :: terminal_t
  m_ON1 :: terminal_t

record nld_LVCCS = nld_VCCS +
  m_cur_limit :: nl_double
  m_vi :: nl_double

record nld_VCVS = nld_VCCS +
  m_RO :: nl_double
  m_OP2 :: terminal_t
  m_ON2 :: terminal_t

type_synonym nld_CCCS = nld_VCCS

subsection \<open>Construction\<close>

text \<open>
  \<open>start_internal\<close> registers the parameters and the terminals, wires the opposite
  terminals and asks for two late connections. The routines \<open>register_param\<close>,
  \<open>enregister\<close> and \<open>connect_late\<close> are declared outside the sources at hand:
  \<open>register_param\<close> is a parameter of the model (the value the registered parameter
  gets, given its name and its default), and the calls of \<open>enregister\<close> and
  \<open>connect_late\<close> are recorded in the order they are issued.
\<close>

record setup_t =
  enregister_calls :: "(string \<times> term_ref) list"
  connect_late_calls :: "(term_ref \<times> term_ref) list"

definition enregister :: "string \<Rightarrow> term_ref \<Rightarrow> setup_t \<Rightarrow> setup_t" where
  "enregister name t s = s\<lparr>enregister_calls := enregister_calls s @ [(name, t)]\<rparr>"

definition connect_late :: "term_ref \<Rightarrow> term_ref \<Rightarrow> setup_t \<Rightarrow> setup_t" where
  "connect_late t1 t2 s = s\<lparr>connect_late_calls := connect_late_calls s @ [(t1, t2)]\<rparr>"

definition start_internal ::
  "(string \<Rightarrow> nl_double \<Rightarrow> nl_double) \<Rightarrow> nl_double \<Rightarrow>
   'a nld_VCCS_scheme \<times> setup_t \<Rightarrow> 'a nld_VCCS_scheme \<times> setup_t" where
  "start_internal register_param def_RI ds =
    (let (d, s) = ds;
         d = d\<lparr>m_G := register_param ''G'' (Fin 1)\<rparr>;
         d = d\<lparr>m_RI := register_param ''RI'' def_RI\<rparr>;
         s = enregister ''IP'' IP s;
         s = enregister ''IN'' IN s;
         s = enregister ''OP'' OP s;
         s = enregister ''ON'' ON s;
         s = enregister ''_OP1'' OP1 s;
         s = enregister ''_ON1'' ON1 s;
         d = d\<lparr>m_IP := (m_IP d)\<lparr>m_otherterm := Some IN\<rparr>\<rparr>;
         d = d\<lparr>m_IN := (m_IN d)\<lparr>m_otherterm := Some IP\<rparr>\<rparr>;
         d = d\<lparr>m_OP := (m_OP d)\<lparr>m_otherterm := Some IP\<rparr>\<rparr>;
         d = d\<lparr>m_OP1 := (m_OP1 d)\<lparr>m_otherterm := Some IN\<rparr>\<rparr>;
         d = d\<lparr>m_ON := (m_ON d)\<lparr>m_otherterm := Some IP\<rparr>\<rparr>;
         d = d\<lparr>m_ON1 := (m_ON1 d)\<lparr>m_otherterm := Some IN\<rparr>\<rparr>;
         s = connect_late OP OP1 s;
         s = connect_late ON ON1 s
     in (d, s))"

text \<open>The terminal of a device at a given address, and a write through the address.\<close>

fun terminal :: "'a nld_VCCS_scheme \<Rightarrow> term_ref \<Rightarrow> terminal_t" where
  "terminal d IP = m_IP d"
| "terminal d IN = m_IN d"
| "terminal d OP = m_OP d"
| "terminal d ON = m_ON d"
| "terminal d OP1 = m_OP1 d"
| "terminal d ON1 = m_ON1 d"

fun set_otherterm :: "term_ref \<Rightarrow> term_ref \<Rightarrow> 'a nld_VCCS_scheme \<Rightarrow> 'a nld_VCCS_scheme" where
  "set_otherterm IP t d = d\<lparr>m_IP := (m_IP d)\<lparr>m_otherterm := Some t\<rparr>\<rparr>"
| "set_otherterm IN t d = d\<lparr>m_IN := (m_IN d)\<lparr>m_otherterm := Some t\<rparr>\<rparr>"
| "set_otherterm OP t d = d\<lparr>m_OP := (m_OP d)\<lparr>m_otherterm := Some t\<rparr>\<rparr>"
| "set_otherterm ON t d = d\<lparr>m_ON := (m_ON d)\<lparr>m_otherterm := Some t\<rparr>\<rparr>"
| "set_otherterm OP1 t d = d\<lparr>m_OP1 := (m_OP1 d)\<lparr>m_otherterm := Some t\<rparr>\<rparr>"
| "set_otherterm ON1 t d = d\<lparr>m_ON1 := (m_ON1 d)\<lparr>m_otherterm := Some t\<rparr>\<rparr>"

text \<open>Two terminals of a device are cross-referenced when each is the opposite of the other.\<close>

definition cross_referenced :: "'a nld_VCCS_scheme \<Rightarrow> term_ref \<Rightarrow> term_ref \<Rightarrow> bool" where
  "cross_referenced d a b =
     (m_otherterm (terminal d a) = Some b \<and> m_otherterm (terminal d b) = Some a)"

text \<open>
  Modelled from the spec: the finalization of the topology, which is not in the sources
  at hand. The specification describes \<open>connect_late(terminalA, terminalB)\<close> as declaring
  two terminals a late-bound opposite pair, and the build as two phases: construction, and
  a finalize phase that binds the opposite-terminal references of the declared pairs once
  the full topology is known, rejecting a device that is finalized twice. The flag says
  whether the device has been finalized.
\<close>

datatype build_error = Finalized_twice

fun bind_opposite :: "term_ref \<times> term_ref \<Rightarrow> 'a nld_VCCS_scheme \<Rightarrow> 'a nld_VCCS_scheme" where
  "bind_opposite (a, b) d = set_otherterm b a (set_otherterm a b d)"

definition finalize ::
  "setup_t \<Rightarrow> bool \<times> 'a nld_VCCS_scheme \<Rightarrow> build_error + (bool \<times> 'a nld_VCCS_scheme)" where
  "finalize s fd =
     (if fst fd then Inl Finalized_twice
      else Inr (True, fold bind_opposite (connect_late_calls s) (snd fd)))"

subsection \<open>Reset\<close>

definition VCCS_reset :: "'a nld_VCCS_scheme \<Rightarrow> 'a nld_VCCS_scheme" where
  "VCCS_reset d =
    (let m_mult = m_G d * m_gfac d;
         GI = Fin 1 / m_RI d
     in d\<lparr>m_IP := set1 GI (m_IP d),
          m_IN := set1 GI (m_IN d),
          m_OP := set2 m_mult (Fin 0) (m_OP d),
          m_OP1 := set2 (- m_mult) (Fin 0) (m_OP1 d),
          m_ON := set2 (- m_mult) (Fin 0) (m_ON d),
          m_ON1 := set2 m_mult (Fin 0) (m_ON1 d)\<rparr>)"

definition LVCCS_reset :: "nld_LVCCS \<Rightarrow> nld_LVCCS" where
  "LVCCS_reset d = VCCS_reset d"

definition CCCS_reset :: "nld_CCCS \<Rightarrow> nld_CCCS" where
  "CCCS_reset d = VCCS_reset d"

definition VCVS_reset :: "nld_VCVS \<Rightarrow> nld_VCVS" where
  "VCVS_reset d =
    (let d1 = d\<lparr>m_gfac := Fin 1 / m_RO d\<rparr>;
         d2 = VCCS_reset d1
     in d2\<lparr>m_OP2 := set1 (Fin 1 / m_RO d2) (m_OP2 d2),
           m_ON2 := set1 (Fin 1 / m_RO d2) (m_ON2 d2)\<rparr>)"


subsection \<open>Update\<close>

text \<open>
  Only called if the device is connected to a rail net: notify the solver to
  recalculate.
\<close>

definition VCCS_update :: "'a nld_VCCS_scheme \<Rightarrow> netlist_t \<Rightarrow> netlist_t" where
  "VCCS_update d nl =
    (if \<not> isRailNet (net nl (m_IP d)) then schedule_solve IP nl
     else if \<not> isRailNet (net nl (m_IN d)) then schedule_solve IN nl
     else if \<not> isRailNet (net nl (m_OP d)) then schedule_solve OP nl
     else if \<not> isRailNet (net nl (m_ON d)) then schedule_solve ON nl
     else nl)"

definition LVCCS_update :: "nld_LVCCS \<Rightarrow> netlist_t \<Rightarrow> netlist_t" where
  "LVCCS_update d nl = VCCS_update d nl"

definition CCCS_update :: "nld_CCCS \<Rightarrow> netlist_t \<Rightarrow> netlist_t" where
  "CCCS_update d nl = VCCS_update d nl"

subsection \<open>Update of the terminals of the current-limited source\<close>

definition LVCCS_update_terminals :: "netlist_t \<Rightarrow> nld_LVCCS \<Rightarrow> nld_LVCCS" where
  "LVCCS_update_terminals nl d =
    (let m_mult = m_G d * m_gfac d;
         vi = Q_Analog (net nl (m_IP d)) - Q_Analog (net nl (m_IN d));
         d1 = (if Fin 0.5 < \<bar>m_mult / m_cur_limit d * vi\<bar>
               then d\<lparr>m_vi := m_vi d + Fin 0.2 * nl_tanh ((vi - m_vi d) / Fin 0.2)\<rparr>
               else d\<lparr>m_vi := vi\<rparr>);
         x = m_mult / m_cur_limit d1 * m_vi d1;
         X = nl_tanh x;
         beta = m_mult * (Fin 1 - X * X);
         I = m_cur_limit d1 * X - beta * m_vi d1
     in d1\<lparr>m_OP := set3 beta (Fin 0) I (m_OP d1),
           m_OP1 := set2 (- beta) (Fin 0) (m_OP1 d1),
           m_ON := set3 (- beta) (Fin 0) (- I) (m_ON d1),
           m_ON1 := set2 beta (Fin 0) (m_ON1 d1)\<rparr>)"

subsection \<open>Sample devices and netlists\<close>

text \<open>
  A terminal on net \<open>n\<close> that has not been wired or stamped yet, a netlist whose net
  \<open>0\<close> is the only rail net and whose net \<open>n\<close> is at \<open>n\<close> volts, and devices whose
  terminals IP, IN, OP, ON sit on the nets 0, 1, 2, 3 (the auxiliary terminals on the
  nets of their outputs); the inputs of the LVCCS are swapped (IP on net 1, IN on net 0),
  and one VCCS has all its terminals on the rail net.
\<close>

definition fresh_terminal :: "nat \<Rightarrow> terminal_t" where
  "fresh_terminal n = \<lparr>m_otherterm = None, m_net = n, m_stamp = None\<rparr>"

definition sample_netlist :: netlist_t where
  "sample_netlist =
     \<lparr>nets = (\<lambda>n. \<lparr>isRailNet = (n = 0), Q_Analog = Fin (real n)\<rparr>),
      schedule_solve_calls = []\<rparr>"

definition sample_VCCS :: nld_VCCS where
  "sample_VCCS =
     \<lparr>m_G = Fin 1, m_RI = Fin 1000000000, m_gfac = Fin 1,
      m_IP = fresh_terminal 0, m_IN = fresh_terminal 1,
      m_OP = fresh_terminal 2, m_ON = fresh_terminal 3,
      m_OP1 = fresh_terminal 2, m_ON1 = fresh_terminal 3\<rparr>"

definition all_rail_VCCS :: nld_VCCS where
  "all_rail_VCCS =
     \<lparr>m_G = Fin 1, m_RI = Fin 1000000000, m_gfac = Fin 1,
      m_IP = fresh_terminal 0, m_IN = fresh_terminal 0,
      m_OP = fresh_terminal 0, m_ON = fresh_terminal 0,
      m_OP1 = fresh_terminal 0, m_ON1 = fresh_terminal 0\<rparr>"

definition sample_LVCCS :: nld_LVCCS where
  "sample_LVCCS =
     \<lparr>m_G = Fin 1, m_RI = Fin 1000000000, m_gfac = Fin 1,
      m_IP = fresh_terminal 1, m_IN = fresh_terminal 0,
      m_OP = fresh_terminal 2, m_ON = fresh_terminal 3,
      m_OP1 = fresh_terminal 2, m_ON1 = fresh_terminal 3,
      m_cur_limit = Fin 1, m_vi = Fin 0\<rparr>"

definition netlist_at :: "real \<Rightarrow> netlist_t" where
  "netlist_at v =
     \<lparr>nets = (\<lambda>n. \<lparr>isRailNet = False, Q_Analog = Fin (if n = 1 then v else 0)\<rparr>),
      schedule_solve_calls = []\<rparr>"

subsection \<open>The clamped current, in the words of the specification\<close>

text \<open>
  The companion model of the current-limited source at an operating point \<open>vi\<close>, on
  the reals: the conductance \<open>beta = mult\<sqdot>(1 - X\<^sup>2)\<close> and the current offset
  \<open>I = currentLimit\<sqdot>X - beta\<sqdot>vi\<close>, where \<open>X = tanh(mult/currentLimit \<sqdot> vi)\<close>.
\<close>

definition clamp_beta :: "real \<Rightarrow> real \<Rightarrow> real \<Rightarrow> real" where
  "clamp_beta mult currentLimit vi = mult * (1 - (tanh (mult / currentLimit * vi))\<^sup>2)"

definition clamp_I :: "real \<Rightarrow> real \<Rightarrow> real \<Rightarrow> real" where
  "clamp_I mult currentLimit vi =
     currentLimit * tanh (mult / currentLimit * vi) - clamp_beta mult currentLimit vi * vi"

text \<open>The shape of the clamped current, with gain and limit scaled to one.\<close>

definition knee :: "real \<Rightarrow> real" where
  "knee y = tanh y - y * (1 - (tanh y)\<^sup>2)"

subsection \<open>The priority rule of update, in the words of the specification\<close>

text \<open>
  The terminals are examined in the order IP, IN, OP, ON; the first one whose net is
  not a rail net is the one a re-solve is requested on.
\<close>

definition first_non_rail :: "'a nld_VCCS_scheme \<Rightarrow> netlist_t \<Rightarrow> term_ref option" where
  "first_non_rail d nl =
     map_option fst
       (List.find (\<lambda>(r, t). \<not> isRailNet (net nl t))
          [(IP, m_IP d), (IN, m_IN d), (OP, m_OP d), (ON, m_ON d)])"

definition requests :: "term_ref option \<Rightarrow> term_ref list" where
  "requests r = (case r of None \<Rightarrow> [] | Some t \<Rightarrow> [t])"


section \<open>The devices in double arithmetic\<close>

subsection \<open>Rounding to the nearest double\<close>

text \<open>
  Where a property depends on what the machine computes, exact arithmetic on finite
  values says too much. The operations below round every finite result as a C++ \<open>double\<close>
  does: to the nearest number with a 53-bit significand, a tie going to the even
  significand, with the exponent bounded below (subnormal numbers) and a result of
  magnitude \<open>2\<^sup>1\<^sup>0\<^sup>2\<^sup>4\<close> or more replaced by an infinity. On infinities and not-a-number
  they are the operations of \<open>nl_double\<close>. The sign of zero is not modelled, and
  \<open>std::tanh\<close> is taken to return the double nearest to the hyperbolic tangent.
\<close>

definition round_even :: "real \<Rightarrow> int" where
  "round_even y =
     (let f = \<lfloor>y\<rfloor>; r = y - of_int f
      in if r < 1 / 2 then f else if 1 / 2 < r then f + 1 else if even f then f else f + 1)"

definition pow2 :: "int \<Rightarrow> real" where
  "pow2 k = (if 0 \<le> k then 2 ^ nat k else 1 / 2 ^ nat (- k))"

definition exponent64 :: "real \<Rightarrow> int" where
  "exponent64 x = max \<lfloor>log 2 \<bar>x\<bar>\<rfloor> (- 1022)"

definition ulp64 :: "real \<Rightarrow> real" where
  "ulp64 x = pow2 (exponent64 x - 52)"

definition rne64 :: "real \<Rightarrow> real" where
  "rne64 x = (if x = 0 then 0 else sgn x * (of_int (round_even (\<bar>x\<bar> / ulp64 x)) * ulp64 x))"

definition fl :: "real \<Rightarrow> nl_double" where
  "fl x =
     (let r = rne64 x
      in if pow2 1024 \<le> r then PInf else if r \<le> - pow2 1024 then NInf else Fin r)"



fun mul64 :: "nl_double \<Rightarrow> nl_double \<Rightarrow> nl_double" where
  "mul64 (Fin x) (Fin y) = fl (x * y)"
| "mul64 a b = a * b"

fun div64 :: "nl_double \<Rightarrow> nl_double \<Rightarrow> nl_double" where
  "div64 (Fin x) (Fin y) = (if y = 0 then Fin x / Fin y else fl (x / y))"
| "div64 a b = a / b"



subsection \<open>Reset and update of the terminals, rounded\<close>


definition VCCS_reset64 :: "'a nld_VCCS_scheme \<Rightarrow> 'a nld_VCCS_scheme" where
  "VCCS_reset64 d =
    (let m_mult = mul64 (m_G d) (m_gfac d);
         GI = div64 (Fin 1) (m_RI d)
     in d\<lparr>m_IP := set1 GI (m_IP d),
          m_IN := set1 GI (m_IN d),
          m_OP := set2 m_mult (Fin 0) (m_OP d),
          m_OP1 := set2 (- m_mult) (Fin 0) (m_OP1 d),
          m_ON := set2 (- m_mult) (Fin 0) (m_ON d),
          m_ON1 := set2 m_mult (Fin 0) (m_ON1 d)\<rparr>)"

definition VCVS_reset64 :: "nld_VCVS \<Rightarrow> nld_VCVS" where
  "VCVS_reset64 d =
    (let d1 = d\<lparr>m_gfac := div64 (Fin 1) (m_RO d)\<rparr>;
         d2 = VCCS_reset64 d1
     in d2\<lparr>m_OP2 := set1 (div64 (Fin 1) (m_RO d2)) (m_OP2 d2),
           m_ON2 := set1 (div64 (Fin 1) (m_RO d2)) (m_ON2 d2)\<rparr>)"




subsection \<open>Further sample devices\<close>

text \<open>
  A VCVS with gain 5 and output resistance 3, and a netlist with the net of IP (net 1
  of the sample LVCCS) at a given voltage and every other net at zero volts.
\<close>

definition sample_VCVS :: nld_VCVS where
  "sample_VCVS =
     \<lparr>m_G = Fin 5, m_RI = Fin 1000000000, m_gfac = Fin 1,
      m_IP = fresh_terminal 0, m_IN = fresh_terminal 1,
      m_OP = fresh_terminal 2, m_ON = fresh_terminal 3,
      m_OP1 = fresh_terminal 2, m_ON1 = fresh_terminal 3,
      m_RO = Fin 3, m_OP2 = fresh_terminal 2, m_ON2 = fresh_terminal 3\<rparr>"



section \<open>Reset stamps of the voltage-controlled current source\<close>

text \<open>
  Claim C3. After the reset of a VCCS with gain \<open>G\<close>, input resistance \<open>RI\<close> and gain
  factor \<open>gfac\<close>, the terminals IP and IN each carry the conductance \<open>1/RI\<close>, OP carries
  \<open>+G\<sqdot>gfac\<close> and its auxiliary terminal OP1 \<open>-G\<sqdot>gfac\<close>, ON carries \<open>-G\<sqdot>gfac\<close> and its
  auxiliary terminal ON1 \<open>+G\<sqdot>gfac\<close>. For \<open>G = 1.0\<close>, \<open>RI = 1e9\<close> and \<open>gfac = 1.0\<close> the
  conductance on IP and IN is \<open>1e-9\<close>, the pair (OP, OP1) carries \<open>(+1.0, -1.0)\<close> and the
  pair (ON, ON1) carries \<open>(-1.0, +1.0)\<close>.
\<close>

theorem VCCS_reset_stamps:
  fixes d :: "'a nld_VCCS_scheme" and e :: "'a nld_VCCS_scheme"
  defines "r \<equiv> VCCS_reset d"
    and "r1 \<equiv> VCCS_reset (e\<lparr>m_G := Fin 1, m_RI := Fin 1000000000, m_gfac := Fin 1\<rparr>)"
  shows "m_stamp (m_IP r) = Some (Set1 (Fin 1 / m_RI d))
       \<and> m_stamp (m_IN r) = Some (Set1 (Fin 1 / m_RI d))
       \<and> m_stamp (m_OP r) = Some (Set2 (m_G d * m_gfac d) (Fin 0))
       \<and> m_stamp (m_OP1 r) = Some (Set2 (- (m_G d * m_gfac d)) (Fin 0))
       \<and> m_stamp (m_ON r) = Some (Set2 (- (m_G d * m_gfac d)) (Fin 0))
       \<and> m_stamp (m_ON1 r) = Some (Set2 (m_G d * m_gfac d) (Fin 0))
       \<and> m_stamp (m_IP r1) = Some (Set1 (Fin (1 / 10 ^ 9)))
       \<and> m_stamp (m_IN r1) = Some (Set1 (Fin (1 / 10 ^ 9)))
       \<and> m_stamp (m_OP r1) = Some (Set2 (Fin 1) (Fin 0))
       \<and> m_stamp (m_OP1 r1) = Some (Set2 (Fin (- 1)) (Fin 0))
       \<and> m_stamp (m_ON r1) = Some (Set2 (Fin (- 1)) (Fin 0))
       \<and> m_stamp (m_ON1 r1) = Some (Set2 (Fin 1) (Fin 0))"
  unfolding r_def r1_def
  by (simp add: VCCS_reset_def Let_def set1_def set2_def)


section \<open>The re-solve request of update\<close>

lemma VCCS_update_calls:
  "schedule_solve_calls (VCCS_update d nl) =
     schedule_solve_calls nl @ requests (first_non_rail d nl)"
  by (simp add: VCCS_update_def first_non_rail_def requests_def schedule_solve_def)

lemma VCCS_update_nets: "nets (VCCS_update d nl) = nets nl"
  by (simp add: VCCS_update_def schedule_solve_def)

lemma first_non_rail_nets:
  "nets nl' = nets nl \<Longrightarrow> first_non_rail d nl' = first_non_rail d nl"
  by (simp add: first_non_rail_def net_def)

lemma length_requests: "length (requests r) \<le> 1"
  by (simp add: requests_def split: option.split)

text \<open>
  Claim C2. One call of update of a VCCS, and of every variant whose update delegates
  to it, examines the terminals in the order IP, IN, OP, ON and issues exactly one
  \<open>schedule_solve\<close>, on the first of them whose net is not a rail net; when all four
  nets are rail nets it issues none. In particular, when the net of IP is a rail net
  and the net of IN is not, the request is on IN, whatever the nets of OP and ON are.
\<close>

theorem VCCS_update_priority:
  fixes d :: "'a nld_VCCS_scheme" and l :: nld_LVCCS and c :: nld_CCCS
  shows "schedule_solve_calls (VCCS_update d nl) =
           schedule_solve_calls nl @ requests (first_non_rail d nl)
       \<and> schedule_solve_calls (LVCCS_update l nl) =
           schedule_solve_calls nl @ requests (first_non_rail l nl)
       \<and> schedule_solve_calls (CCCS_update c nl) =
           schedule_solve_calls nl @ requests (first_non_rail c nl)
       \<and> length (requests (first_non_rail d nl)) \<le> 1
       \<and> ((isRailNet (net nl (m_IP d)) \<and> isRailNet (net nl (m_IN d))
            \<and> isRailNet (net nl (m_OP d)) \<and> isRailNet (net nl (m_ON d)))
           \<longrightarrow> VCCS_update d nl = nl)
       \<and> (\<not> isRailNet (net nl (m_IP d))
           \<longrightarrow> schedule_solve_calls (VCCS_update d nl) = schedule_solve_calls nl @ [IP])
       \<and> (isRailNet (net nl (m_IP d)) \<and> \<not> isRailNet (net nl (m_IN d))
           \<longrightarrow> schedule_solve_calls (VCCS_update d nl) = schedule_solve_calls nl @ [IN])"
proof (intro conjI impI)
  show "schedule_solve_calls (VCCS_update d nl) =
      schedule_solve_calls nl @ requests (first_non_rail d nl)"
    by (rule VCCS_update_calls)
  show "schedule_solve_calls (LVCCS_update l nl) =
      schedule_solve_calls nl @ requests (first_non_rail l nl)"
    unfolding LVCCS_update_def by (rule VCCS_update_calls)
  show "schedule_solve_calls (CCCS_update c nl) =
      schedule_solve_calls nl @ requests (first_non_rail c nl)"
    unfolding CCCS_update_def by (rule VCCS_update_calls)
  show "length (requests (first_non_rail d nl)) \<le> 1"
    by (rule length_requests)
next
  assume "isRailNet (net nl (m_IP d)) \<and> isRailNet (net nl (m_IN d))
      \<and> isRailNet (net nl (m_OP d)) \<and> isRailNet (net nl (m_ON d))"
  then show "VCCS_update d nl = nl"
    by (simp add: VCCS_update_def)
next
  assume "\<not> isRailNet (net nl (m_IP d))"
  then show "schedule_solve_calls (VCCS_update d nl) = schedule_solve_calls nl @ [IP]"
    by (simp add: VCCS_update_def schedule_solve_def)
next
  assume "isRailNet (net nl (m_IP d)) \<and> \<not> isRailNet (net nl (m_IN d))"
  then show "schedule_solve_calls (VCCS_update d nl) = schedule_solve_calls nl @ [IN]"
    by (simp add: VCCS_update_def schedule_solve_def)
qed

theorem VCCS_update_priority_witness:
  "isRailNet (net sample_netlist (m_IP sample_VCCS))
   \<and> \<not> isRailNet (net sample_netlist (m_IN sample_VCCS))
   \<and> \<not> isRailNet (net sample_netlist (m_OP sample_VCCS))
   \<and> \<not> isRailNet (net sample_netlist (m_ON sample_VCCS))
   \<and> schedule_solve_calls (VCCS_update sample_VCCS sample_netlist) = [IN]
   \<and> \<not> isRailNet (net sample_netlist (m_IP sample_LVCCS))
   \<and> schedule_solve_calls (VCCS_update sample_LVCCS sample_netlist) = [IP]
   \<and> isRailNet (net sample_netlist (m_IP all_rail_VCCS))
   \<and> isRailNet (net sample_netlist (m_IN all_rail_VCCS))
   \<and> isRailNet (net sample_netlist (m_OP all_rail_VCCS))
   \<and> isRailNet (net sample_netlist (m_ON all_rail_VCCS))
   \<and> VCCS_update all_rail_VCCS sample_netlist = sample_netlist"
proof -
  have rails: "isRailNet (net sample_netlist (m_IP sample_VCCS))
      \<and> \<not> isRailNet (net sample_netlist (m_IN sample_VCCS))
      \<and> \<not> isRailNet (net sample_netlist (m_OP sample_VCCS))
      \<and> \<not> isRailNet (net sample_netlist (m_ON sample_VCCS))"
    by (simp add: sample_VCCS_def sample_netlist_def fresh_terminal_def net_def)
  have rails_l: "\<not> isRailNet (net sample_netlist (m_IP sample_LVCCS))"
    by (simp add: sample_LVCCS_def sample_netlist_def fresh_terminal_def net_def)
  have rails_a: "isRailNet (net sample_netlist (m_IP all_rail_VCCS))
      \<and> isRailNet (net sample_netlist (m_IN all_rail_VCCS))
      \<and> isRailNet (net sample_netlist (m_OP all_rail_VCCS))
      \<and> isRailNet (net sample_netlist (m_ON all_rail_VCCS))"
    by (simp add: all_rail_VCCS_def sample_netlist_def fresh_terminal_def net_def)
  have empty: "schedule_solve_calls sample_netlist = []"
    by (simp add: sample_netlist_def)
  from VCCS_update_priority
    [where d = sample_VCCS and nl = sample_netlist and l = sample_LVCCS and c = sample_VCCS]
  have "isRailNet (net sample_netlist (m_IP sample_VCCS))
      \<and> \<not> isRailNet (net sample_netlist (m_IN sample_VCCS))
    \<longrightarrow> schedule_solve_calls (VCCS_update sample_VCCS sample_netlist)
        = schedule_solve_calls sample_netlist @ [IN]"
    by blast
  with rails empty have one: "schedule_solve_calls (VCCS_update sample_VCCS sample_netlist) = [IN]"
    by simp
  from VCCS_update_priority
    [where d = sample_LVCCS and nl = sample_netlist and l = sample_LVCCS and c = sample_VCCS]
  have "\<not> isRailNet (net sample_netlist (m_IP sample_LVCCS))
    \<longrightarrow> schedule_solve_calls (VCCS_update sample_LVCCS sample_netlist)
        = schedule_solve_calls sample_netlist @ [IP]"
    by blast
  with rails_l empty
  have two: "schedule_solve_calls (VCCS_update sample_LVCCS sample_netlist) = [IP]"
    by simp
  from VCCS_update_priority
    [where d = all_rail_VCCS and nl = sample_netlist and l = sample_LVCCS and c = sample_VCCS]
  have "isRailNet (net sample_netlist (m_IP all_rail_VCCS))
      \<and> isRailNet (net sample_netlist (m_IN all_rail_VCCS))
      \<and> isRailNet (net sample_netlist (m_OP all_rail_VCCS))
      \<and> isRailNet (net sample_netlist (m_ON all_rail_VCCS))
    \<longrightarrow> VCCS_update all_rail_VCCS sample_netlist = sample_netlist"
    by blast
  with rails_a have three: "VCCS_update all_rail_VCCS sample_netlist = sample_netlist"
    by blast
  from rails rails_l rails_a one two three show ?thesis
    by blast
qed

text \<open>
  Claim C5, as stated: two calls of update on the same device, with no net changed in
  between, issue at most one \<open>schedule_solve\<close> in total. The code keeps no record of an
  earlier request: on the sample device the two calls issue two requests, both on IN.
\<close>

theorem VCCS_update_twice_counterexample:
  "schedule_solve_calls sample_netlist = []
   \<and> schedule_solve_calls (VCCS_update sample_VCCS (VCCS_update sample_VCCS sample_netlist))
       = [IN, IN]"
  by (simp add: VCCS_update_def schedule_solve_def sample_VCCS_def sample_netlist_def
      fresh_terminal_def net_def)

text \<open>
  Claim C5, amended. Each call of update issues at most one \<open>schedule_solve\<close>, and it
  changes no net; a second call on the same device repeats the request of the first,
  on the same terminal. Two calls therefore issue at most two requests, and request
  no terminal that one call does not.
\<close>

theorem VCCS_update_twice:
  fixes d :: "'a nld_VCCS_scheme"
  shows "\<exists>r. length r \<le> 1
           \<and> schedule_solve_calls (VCCS_update d nl) = schedule_solve_calls nl @ r
           \<and> schedule_solve_calls (VCCS_update d (VCCS_update d nl))
               = schedule_solve_calls nl @ r @ r
           \<and> set (schedule_solve_calls (VCCS_update d (VCCS_update d nl)))
               = set (schedule_solve_calls (VCCS_update d nl))
           \<and> nets (VCCS_update d (VCCS_update d nl)) = nets nl"
proof -
  let ?r = "requests (first_non_rail d nl)"
  have same: "first_non_rail d (VCCS_update d nl) = first_non_rail d nl"
    by (rule first_non_rail_nets) (rule VCCS_update_nets)
  have "length ?r \<le> 1"
    by (rule length_requests)
  moreover have "schedule_solve_calls (VCCS_update d nl) = schedule_solve_calls nl @ ?r"
    by (rule VCCS_update_calls)
  moreover have two: "schedule_solve_calls (VCCS_update d (VCCS_update d nl))
      = schedule_solve_calls nl @ ?r @ ?r"
    by (simp add: VCCS_update_calls same)
  moreover have "set (schedule_solve_calls (VCCS_update d (VCCS_update d nl)))
      = set (schedule_solve_calls (VCCS_update d nl))"
    by (simp add: two) (simp add: VCCS_update_calls)
  moreover have "nets (VCCS_update d (VCCS_update d nl)) = nets nl"
    by (simp add: VCCS_update_nets)
  ultimately show ?thesis
    by blast
qed


section \<open>The stamps of the current-limited source\<close>

text \<open>
  Claim C1. A call of update-terminals of an LVCCS, with \<open>mult = G\<sqdot>gainFactor\<close> and
  \<open>vi = V(IP) - V(IN)\<close> read from the nets of the inputs, sets the estimate
  \<open>filteredVi\<close> to its previous value plus \<open>0.2\<sqdot>tanh((vi - filteredVi)/0.2)\<close> when
  \<open>|mult/currentLimit \<sqdot> vi| > 0.5\<close>, and to \<open>vi\<close> otherwise. Then, with
  \<open>X = tanh(mult/currentLimit \<sqdot> filteredVi)\<close>, \<open>beta = mult\<sqdot>(1 - X\<^sup>2)\<close> and
  \<open>I = currentLimit\<sqdot>X - beta\<sqdot>filteredVi\<close>, it stamps OP with \<open>(beta, 0, +I)\<close>, OP1 with
  \<open>(-beta, 0)\<close>, ON with \<open>(-beta, 0, -I)\<close> and ON1 with \<open>(+beta, 0)\<close>.
\<close>

theorem LVCCS_update_terminals_stamps:
  fixes d :: nld_LVCCS and nl :: netlist_t
  defines "mult \<equiv> m_G d * m_gfac d"
    and "vi \<equiv> Q_Analog (net nl (m_IP d)) - Q_Analog (net nl (m_IN d))"
  defines "filteredVi \<equiv>
      (if Fin 0.5 < \<bar>mult / m_cur_limit d * vi\<bar>
       then m_vi d + Fin 0.2 * nl_tanh ((vi - m_vi d) / Fin 0.2)
       else vi)"
  defines "X \<equiv> nl_tanh (mult / m_cur_limit d * filteredVi)"
  defines "beta \<equiv> mult * (Fin 1 - X * X)"
  defines "I \<equiv> m_cur_limit d * X - beta * filteredVi"
  defines "r \<equiv> LVCCS_update_terminals nl d"
  shows "m_vi r = filteredVi
       \<and> m_stamp (m_OP r) = Some (Set3 beta (Fin 0) I)
       \<and> m_stamp (m_OP1 r) = Some (Set2 (- beta) (Fin 0))
       \<and> m_stamp (m_ON r) = Some (Set3 (- beta) (Fin 0) (- I))
       \<and> m_stamp (m_ON1 r) = Some (Set2 beta (Fin 0))"
  unfolding r_def I_def beta_def X_def filteredVi_def vi_def mult_def
  by (simp add: LVCCS_update_terminals_def Let_def set2_def set3_def)

text \<open>
  Claim C10. Update-terminals of an LVCCS writes stamps to OP, OP1, ON and ON1 only and
  changes no other state than the estimate \<open>filteredVi\<close>: the terminals IP and IN, with
  the conductance \<open>1/RI\<close> stamped on them at reset, and the stored \<open>G\<close>, \<open>RI\<close>,
  \<open>currentLimit\<close> and gain factor are what they were before the call.
\<close>

theorem LVCCS_update_terminals_frame:
  fixes d :: nld_LVCCS and nl :: netlist_t
  defines "r \<equiv> LVCCS_update_terminals nl d"
    and "q \<equiv> LVCCS_update_terminals nl (LVCCS_reset d)"
  shows "r = d\<lparr>m_vi := m_vi r,
               m_OP := (m_OP d)\<lparr>m_stamp := m_stamp (m_OP r)\<rparr>,
               m_OP1 := (m_OP1 d)\<lparr>m_stamp := m_stamp (m_OP1 r)\<rparr>,
               m_ON := (m_ON d)\<lparr>m_stamp := m_stamp (m_ON r)\<rparr>,
               m_ON1 := (m_ON1 d)\<lparr>m_stamp := m_stamp (m_ON1 r)\<rparr>\<rparr>
       \<and> m_IP r = m_IP d \<and> m_IN r = m_IN d
       \<and> m_G r = m_G d \<and> m_RI r = m_RI d
       \<and> m_cur_limit r = m_cur_limit d \<and> m_gfac r = m_gfac d
       \<and> m_stamp (m_IP q) = Some (Set1 (Fin 1 / m_RI d))
       \<and> m_stamp (m_IN q) = Some (Set1 (Fin 1 / m_RI d))
       \<and> m_G q = m_G d \<and> m_RI q = m_RI d
       \<and> m_cur_limit q = m_cur_limit d \<and> m_gfac q = m_gfac d"
proof -
  have shape: "r = d\<lparr>m_vi := m_vi r,
               m_OP := (m_OP d)\<lparr>m_stamp := m_stamp (m_OP r)\<rparr>,
               m_OP1 := (m_OP1 d)\<lparr>m_stamp := m_stamp (m_OP1 r)\<rparr>,
               m_ON := (m_ON d)\<lparr>m_stamp := m_stamp (m_ON r)\<rparr>,
               m_ON1 := (m_ON1 d)\<lparr>m_stamp := m_stamp (m_ON1 r)\<rparr>\<rparr>"
    unfolding r_def LVCCS_update_terminals_def Let_def set2_def set3_def
    by simp
  have kept: "m_IP r = m_IP d \<and> m_IN r = m_IN d
       \<and> m_G r = m_G d \<and> m_RI r = m_RI d
       \<and> m_cur_limit r = m_cur_limit d \<and> m_gfac r = m_gfac d"
    unfolding r_def by (simp add: LVCCS_update_terminals_def Let_def)
  have after_reset: "m_stamp (m_IP q) = Some (Set1 (Fin 1 / m_RI d))
       \<and> m_stamp (m_IN q) = Some (Set1 (Fin 1 / m_RI d))
       \<and> m_G q = m_G d \<and> m_RI q = m_RI d
       \<and> m_cur_limit q = m_cur_limit d \<and> m_gfac q = m_gfac d"
    unfolding q_def
    by (simp add: LVCCS_update_terminals_def LVCCS_reset_def VCCS_reset_def Let_def set1_def)
  from shape kept after_reset show ?thesis
    by (intro conjI) (elim conjE, assumption)+
qed


section \<open>Parameters are not validated\<close>

text \<open>
  Claim C9. The reset of a VCCS validates no parameter and has no failing path: for
  every value of the parameters it returns the device with IP and IN stamped with the
  conductance \<open>1/RI\<close> and the parameters as they were. With \<open>RI = 0\<close> that conductance
  is the quotient \<open>1/0\<close>, an infinity, and it is stamped like any other value.
\<close>

theorem VCCS_reset_unchecked:
  fixes d :: "'a nld_VCCS_scheme"
  defines "r \<equiv> VCCS_reset d"
    and "z \<equiv> VCCS_reset (d\<lparr>m_RI := Fin 0\<rparr>)"
  shows "m_stamp (m_IP r) = Some (Set1 (Fin 1 / m_RI d))
       \<and> m_stamp (m_IN r) = Some (Set1 (Fin 1 / m_RI d))
       \<and> m_RI r = m_RI d \<and> m_G r = m_G d \<and> m_gfac r = m_gfac d
       \<and> m_stamp (m_IP z) = Some (Set1 PInf)
       \<and> m_stamp (m_IN z) = Some (Set1 PInf)
       \<and> m_RI z = Fin 0
       \<and> \<not> is_finite (Fin 1 / Fin 0)"
  unfolding r_def z_def
  by (simp add: VCCS_reset_def Let_def set1_def)



section \<open>Saturation of the current-limited source\<close>

subsection \<open>Limits of the clamp's shape\<close>

lemma frac_sq_defect:
  fixes q :: real
  assumes "0 < q"
  shows "1 - ((1 - q) / (1 + q))\<^sup>2 = 4 * q / (1 + q)\<^sup>2"
proof -
  have nz: "(1 + q)\<^sup>2 \<noteq> 0"
    using assms by simp
  have "1 - ((1 - q) / (1 + q))\<^sup>2 = ((1 + q)\<^sup>2 - (1 - q)\<^sup>2) / (1 + q)\<^sup>2"
  proof -
    have "((1 - q) / (1 + q))\<^sup>2 = (1 - q)\<^sup>2 / (1 + q)\<^sup>2"
      by (rule power_divide)
    moreover have "1 = (1 + q)\<^sup>2 / (1 + q)\<^sup>2"
      using nz by simp
    ultimately have "1 - ((1 - q) / (1 + q))\<^sup>2
        = (1 + q)\<^sup>2 / (1 + q)\<^sup>2 - (1 - q)\<^sup>2 / (1 + q)\<^sup>2"
      by simp
    then show ?thesis
      by (simp only: diff_divide_distrib)
  qed
  also have "(1 + q)\<^sup>2 - (1 - q)\<^sup>2 = 4 * q"
    by (simp add: power2_eq_square algebra_simps)
  finally show ?thesis .
qed

lemma tanh_sq_defect:
  "1 - (tanh (y::real))\<^sup>2 = 4 * exp (- 2 * y) / (1 + exp (- 2 * y))\<^sup>2"
  unfolding tanh_real_altdef by (rule frac_sq_defect) simp

lemma exp_m2_at_top: "((\<lambda>y::real. exp (- 2 * y)) \<longlongrightarrow> 0) at_top"
  by (intro filterlim_compose [OF exp_at_bot]
      filterlim_tendsto_neg_mult_at_bot [OF tendsto_const] filterlim_ident) auto

lemma self_exp_m2_at_top: "((\<lambda>y::real. y * exp (- 2 * y)) \<longlongrightarrow> 0) at_top"
proof -
  have dbl: "LIM y at_top. 2 * y :: real :> at_top"
    by (rule filterlim_tendsto_pos_mult_at_top [OF tendsto_const _ filterlim_ident]) simp
  have "((\<lambda>y::real. (2 * y) ^ 1 / exp (2 * y)) \<longlongrightarrow> 0) at_top"
    by (rule filterlim_compose [OF tendsto_power_div_exp_0 dbl])
  then have "((\<lambda>y::real. (1 / 2) * ((2 * y) ^ 1 / exp (2 * y))) \<longlongrightarrow> (1 / 2) * 0) at_top"
    by (rule tendsto_mult [OF tendsto_const])
  moreover have "(\<lambda>y::real. (1 / 2) * ((2 * y) ^ 1 / exp (2 * y))) = (\<lambda>y. y * exp (- 2 * y))"
    by (rule ext) (simp add: exp_minus field_simps)
  ultimately show ?thesis
    by simp
qed

lemma defect_at_top: "((\<lambda>y::real. 1 - (tanh y)\<^sup>2) \<longlongrightarrow> 0) at_top"
proof -
  have "((\<lambda>y::real. 1 - (tanh y)\<^sup>2) \<longlongrightarrow> 1 - 1\<^sup>2) at_top"
    by (intro tendsto_intros tanh_real_at_top)
  then show ?thesis
    by simp
qed

lemma defect_at_bot: "((\<lambda>y::real. 1 - (tanh y)\<^sup>2) \<longlongrightarrow> 0) at_bot"
proof -
  have "((\<lambda>y::real. 1 - (tanh y)\<^sup>2) \<longlongrightarrow> 1 - (- 1)\<^sup>2) at_bot"
    by (intro tendsto_intros tanh_real_at_bot)
  then show ?thesis
    by simp
qed

lemma knee_at_top: "(knee \<longlongrightarrow> 1) at_top"
proof -
  have "((\<lambda>y::real. 4 * (y * exp (- 2 * y)) / (1 + exp (- 2 * y))\<^sup>2)
      \<longlongrightarrow> 4 * 0 / (1 + 0)\<^sup>2) at_top"
    by (intro tendsto_intros self_exp_m2_at_top exp_m2_at_top) simp
  moreover have "(\<lambda>y::real. 4 * (y * exp (- 2 * y)) / (1 + exp (- 2 * y))\<^sup>2)
      = (\<lambda>y. y * (1 - (tanh y)\<^sup>2))"
    by (rule ext) (simp add: tanh_sq_defect)
  ultimately have "((\<lambda>y::real. y * (1 - (tanh y)\<^sup>2)) \<longlongrightarrow> 0) at_top"
    by simp
  then have "((\<lambda>y::real. tanh y - y * (1 - (tanh y)\<^sup>2)) \<longlongrightarrow> 1 - 0) at_top"
    by (intro tendsto_diff tanh_real_at_top)
  then show ?thesis
    by (simp add: knee_def [abs_def])
qed

lemma knee_minus: "knee (- y) = - knee y"
  by (simp add: knee_def)

lemma knee_at_bot: "(knee \<longlongrightarrow> - 1) at_bot"
proof -
  have "((\<lambda>y. - knee y) \<longlongrightarrow> - 1) at_top"
    by (intro tendsto_minus knee_at_top)
  then have "((\<lambda>y. knee (- y)) \<longlongrightarrow> - 1) at_top"
    by (simp add: knee_minus)
  then show ?thesis
    by (subst filterlim_at_bot_mirror)
qed

lemma scale_pos_top: "0 < a \<Longrightarrow> LIM v at_top. a * v :: real :> at_top"
  by (rule filterlim_tendsto_pos_mult_at_top [OF tendsto_const _ filterlim_ident])

lemma scale_neg_top: "a < 0 \<Longrightarrow> LIM v at_top. a * v :: real :> at_bot"
  by (rule filterlim_tendsto_neg_mult_at_bot [OF tendsto_const _ filterlim_ident])

lemma scale_pos_bot:
  assumes "0 < a"
  shows "LIM v at_bot. a * v :: real :> at_bot"
proof -
  have "LIM v at_top. (- a) * v :: real :> at_bot"
    by (rule scale_neg_top) (use assms in simp)
  then have "LIM v at_top. a * (- v) :: real :> at_bot"
    by simp
  then show ?thesis
    by (subst filterlim_at_bot_mirror)
qed

lemma scale_neg_bot:
  assumes "a < 0"
  shows "LIM v at_bot. a * v :: real :> at_top"
proof -
  have "LIM v at_top. (- a) * v :: real :> at_top"
    by (rule scale_pos_top) (use assms in simp)
  then have "LIM v at_top. a * (- v) :: real :> at_top"
    by simp
  then show ?thesis
    by (subst filterlim_at_bot_mirror)
qed

subsection \<open>Limits of the clamped current and of its conductance\<close>

lemma clamp_I_knee:
  assumes "c \<noteq> 0"
  shows "clamp_I m c = (\<lambda>v. c * knee (m / c * v))"
  using assms by (simp add: clamp_I_def clamp_beta_def knee_def fun_eq_iff algebra_simps)

lemma scaled_limit:
  fixes h :: "real \<Rightarrow> real"
  assumes "(h \<longlongrightarrow> l) G" and "LIM v F. a * v :> G"
  shows "((\<lambda>v. k * h (a * v)) \<longlongrightarrow> k * l) F"
  by (rule tendsto_mult [OF tendsto_const filterlim_compose [OF assms]])

lemma clamp_I_limits_pos:
  assumes "c \<noteq> 0" and "0 < m / c"
  shows "(clamp_I m c \<longlongrightarrow> c) at_top" and "(clamp_I m c \<longlongrightarrow> - c) at_bot"
proof -
  have "((\<lambda>v. c * knee (m / c * v)) \<longlongrightarrow> c * 1) at_top"
    by (rule scaled_limit [OF knee_at_top scale_pos_top [OF assms(2)]])
  then show "(clamp_I m c \<longlongrightarrow> c) at_top"
    by (simp add: clamp_I_knee [OF assms(1)])
  have "((\<lambda>v. c * knee (m / c * v)) \<longlongrightarrow> c * (- 1)) at_bot"
    by (rule scaled_limit [OF knee_at_bot scale_pos_bot [OF assms(2)]])
  then show "(clamp_I m c \<longlongrightarrow> - c) at_bot"
    by (simp add: clamp_I_knee [OF assms(1)])
qed

lemma clamp_I_limits_neg:
  assumes "c \<noteq> 0" and "m / c < 0"
  shows "(clamp_I m c \<longlongrightarrow> - c) at_top" and "(clamp_I m c \<longlongrightarrow> c) at_bot"
proof -
  have "((\<lambda>v. c * knee (m / c * v)) \<longlongrightarrow> c * (- 1)) at_top"
    by (rule scaled_limit [OF knee_at_bot scale_neg_top [OF assms(2)]])
  then show "(clamp_I m c \<longlongrightarrow> - c) at_top"
    by (simp add: clamp_I_knee [OF assms(1)])
  have "((\<lambda>v. c * knee (m / c * v)) \<longlongrightarrow> c * 1) at_bot"
    by (rule scaled_limit [OF knee_at_top scale_neg_bot [OF assms(2)]])
  then show "(clamp_I m c \<longlongrightarrow> c) at_bot"
    by (simp add: clamp_I_knee [OF assms(1)])
qed

lemma clamp_beta_limits:
  assumes "m / c \<noteq> 0"
  shows "(clamp_beta m c \<longlongrightarrow> 0) at_top" and "(clamp_beta m c \<longlongrightarrow> 0) at_bot"
proof -
  let ?h = "\<lambda>y::real. 1 - (tanh y)\<^sup>2"
  have eq: "clamp_beta m c = (\<lambda>v. m * ?h (m / c * v))"
    by (simp add: clamp_beta_def fun_eq_iff)
  consider "0 < m / c" | "m / c < 0"
    using assms by linarith
  then have "((\<lambda>v. m * ?h (m / c * v)) \<longlongrightarrow> m * 0) at_top
      \<and> ((\<lambda>v. m * ?h (m / c * v)) \<longlongrightarrow> m * 0) at_bot"
  proof cases
    case 1
    show ?thesis
      by (intro conjI scaled_limit [OF defect_at_top scale_pos_top [OF 1]]
          scaled_limit [OF defect_at_bot scale_pos_bot [OF 1]])
  next
    case 2
    show ?thesis
      by (intro conjI scaled_limit [OF defect_at_bot scale_neg_top [OF 2]]
          scaled_limit [OF defect_at_top scale_neg_bot [OF 2]])
  qed
  then show "(clamp_beta m c \<longlongrightarrow> 0) at_top" and "(clamp_beta m c \<longlongrightarrow> 0) at_bot"
    by (simp_all add: eq)
qed

subsection \<open>The stamps at an operating point\<close>

lemma LVCCS_operating_point:
  fixes d :: nld_LVCCS
  assumes "m_G d = Fin g" and "m_gfac d = Fin f" and "m_cur_limit d = Fin c" and "c \<noteq> 0"
    and "Q_Analog (net nl (m_IP d)) - Q_Analog (net nl (m_IN d)) = Fin v"
  shows "m_vi (LVCCS_update_terminals nl (d\<lparr>m_vi := Fin v\<rparr>)) = Fin v"
    and "m_stamp (m_OP (LVCCS_update_terminals nl (d\<lparr>m_vi := Fin v\<rparr>)))
          = Some (Set3 (Fin (clamp_beta (g * f) c v)) (Fin 0) (Fin (clamp_I (g * f) c v)))"
  using assms
  by (simp_all add: LVCCS_update_terminals_def Let_def set3_def minus_nl_double_def
      clamp_I_def clamp_beta_def power2_eq_square)


lemma netlist_at_vi:
  "Q_Analog (net (netlist_at v) (m_IP sample_LVCCS))
     - Q_Analog (net (netlist_at v) (m_IN sample_LVCCS)) = Fin v"
  by (simp add: netlist_at_def sample_LVCCS_def fresh_terminal_def net_def minus_nl_double_def)

text \<open>
  Claim C7, as stated: for nonzero \<open>mult\<close> and \<open>currentLimit\<close>, the current offset at the
  operating point \<open>filteredVi = vi\<close> tends to \<open>+currentLimit\<close> as \<open>vi \<rightarrow> +\<infinity>\<close>. With
  \<open>mult = -1\<close> and \<open>currentLimit = 1\<close> the stamped current is \<open>clamp_I (-1) 1 vi\<close>, and it
  tends to \<open>-1\<close>, not to \<open>+1\<close>.
\<close>

theorem LVCCS_saturation_counterexample:
  "(\<forall>v. m_stamp (m_OP (LVCCS_update_terminals (netlist_at v)
            (sample_LVCCS\<lparr>m_G := Fin (- 1), m_vi := Fin v\<rparr>)))
        = Some (Set3 (Fin (clamp_beta (- 1) 1 v)) (Fin 0) (Fin (clamp_I (- 1) 1 v))))
   \<and> (clamp_I (- 1) 1 \<longlongrightarrow> - 1) at_top
   \<and> \<not> (clamp_I (- 1) 1 \<longlongrightarrow> 1) at_top"
proof (intro conjI allI)
  fix v :: real
  let ?d = "sample_LVCCS\<lparr>m_G := Fin (- 1)\<rparr>"
  have "m_stamp (m_OP (LVCCS_update_terminals (netlist_at v) (?d\<lparr>m_vi := Fin v\<rparr>)))
      = Some (Set3 (Fin (clamp_beta (- 1 * 1) 1 v)) (Fin 0) (Fin (clamp_I (- 1 * 1) 1 v)))"
    by (rule LVCCS_operating_point(2) [where d = ?d])
       (simp_all add: netlist_at_vi, simp_all add: sample_LVCCS_def)
  then show "m_stamp (m_OP (LVCCS_update_terminals (netlist_at v)
            (sample_LVCCS\<lparr>m_G := Fin (- 1), m_vi := Fin v\<rparr>)))
        = Some (Set3 (Fin (clamp_beta (- 1) 1 v)) (Fin 0) (Fin (clamp_I (- 1) 1 v)))"
    by simp
next
  show down: "(clamp_I (- 1) 1 \<longlongrightarrow> - 1) at_top"
    by (rule clamp_I_limits_neg(1)) simp_all
  show "\<not> (clamp_I (- 1) 1 \<longlongrightarrow> 1) at_top"
  proof
    assume "(clamp_I (- 1) 1 \<longlongrightarrow> 1) at_top"
    with down have "(- 1 :: real) = 1"
      by (intro tendsto_unique [of at_top "clamp_I (- 1) 1"]) simp_all
    then show False
      by simp
  qed
qed

text \<open>
  Claim C7, amended. Let \<open>mult = G\<sqdot>gainFactor\<close> and \<open>currentLimit\<close> be finite and nonzero,
  and evaluate update-terminals at the operating point \<open>filteredVi = vi\<close>: the estimate
  stays at \<open>vi\<close>, and OP is stamped with the conductance \<open>clamp_beta mult currentLimit vi\<close>
  and the current \<open>clamp_I mult currentLimit vi\<close>. The conductance tends to \<open>0\<close> as
  \<open>vi \<rightarrow> +\<infinity>\<close> and as \<open>vi \<rightarrow> -\<infinity>\<close>. When \<open>mult\<close> and \<open>currentLimit\<close> have the same sign, the
  current tends to \<open>+currentLimit\<close> as \<open>vi \<rightarrow> +\<infinity>\<close> and to \<open>-currentLimit\<close> as \<open>vi \<rightarrow> -\<infinity>\<close>;
  when their signs differ, it tends to \<open>-currentLimit\<close> as \<open>vi \<rightarrow> +\<infinity>\<close> and to
  \<open>+currentLimit\<close> as \<open>vi \<rightarrow> -\<infinity>\<close>.
\<close>

theorem LVCCS_saturation:
  fixes d :: nld_LVCCS and NL :: "real \<Rightarrow> netlist_t"
  assumes G: "m_G d = Fin g" and gfac: "m_gfac d = Fin f" and cl: "m_cur_limit d = Fin c"
    and mult: "g * f \<noteq> 0" and c: "c \<noteq> 0"
    and vi: "\<forall>v. Q_Analog (net (NL v) (m_IP d)) - Q_Analog (net (NL v) (m_IN d)) = Fin v"
  shows "(\<forall>v. m_vi (LVCCS_update_terminals (NL v) (d\<lparr>m_vi := Fin v\<rparr>)) = Fin v
            \<and> m_stamp (m_OP (LVCCS_update_terminals (NL v) (d\<lparr>m_vi := Fin v\<rparr>)))
                = Some (Set3 (Fin (clamp_beta (g * f) c v)) (Fin 0)
                     (Fin (clamp_I (g * f) c v))))
       \<and> (clamp_beta (g * f) c \<longlongrightarrow> 0) at_top
       \<and> (clamp_beta (g * f) c \<longlongrightarrow> 0) at_bot
       \<and> (0 < g * f / c \<longrightarrow>
            (clamp_I (g * f) c \<longlongrightarrow> c) at_top \<and> (clamp_I (g * f) c \<longlongrightarrow> - c) at_bot)
       \<and> (g * f / c < 0 \<longrightarrow>
            (clamp_I (g * f) c \<longlongrightarrow> - c) at_top \<and> (clamp_I (g * f) c \<longlongrightarrow> c) at_bot)"
proof (intro conjI allI impI)
  fix v :: real
  from vi have at_v: "Q_Analog (net (NL v) (m_IP d)) - Q_Analog (net (NL v) (m_IN d)) = Fin v"
    by blast
  show "m_vi (LVCCS_update_terminals (NL v) (d\<lparr>m_vi := Fin v\<rparr>)) = Fin v"
    by (rule LVCCS_operating_point(1) [OF G gfac cl c at_v])
  show "m_stamp (m_OP (LVCCS_update_terminals (NL v) (d\<lparr>m_vi := Fin v\<rparr>)))
      = Some (Set3 (Fin (clamp_beta (g * f) c v)) (Fin 0) (Fin (clamp_I (g * f) c v)))"
    by (rule LVCCS_operating_point(2) [OF G gfac cl c at_v])
next
  have ratio: "g * f / c \<noteq> 0"
    using mult c by simp
  show "(clamp_beta (g * f) c \<longlongrightarrow> 0) at_top"
    by (rule clamp_beta_limits(1) [OF ratio])
  show "(clamp_beta (g * f) c \<longlongrightarrow> 0) at_bot"
    by (rule clamp_beta_limits(2) [OF ratio])
next
  assume pos: "0 < g * f / c"
  show "(clamp_I (g * f) c \<longlongrightarrow> c) at_top"
    by (rule clamp_I_limits_pos(1) [OF c pos])
  show "(clamp_I (g * f) c \<longlongrightarrow> - c) at_bot"
    by (rule clamp_I_limits_pos(2) [OF c pos])
next
  assume neg: "g * f / c < 0"
  show "(clamp_I (g * f) c \<longlongrightarrow> - c) at_top"
    by (rule clamp_I_limits_neg(1) [OF c neg])
  show "(clamp_I (g * f) c \<longlongrightarrow> c) at_bot"
    by (rule clamp_I_limits_neg(2) [OF c neg])
qed

theorem LVCCS_saturation_witness:
  "m_G sample_LVCCS = Fin 1 \<and> m_gfac sample_LVCCS = Fin 1 \<and> m_cur_limit sample_LVCCS = Fin 1
   \<and> (1::real) * 1 \<noteq> 0 \<and> (0::real) < 1 * 1 / 1
   \<and> (\<forall>v. Q_Analog (net (netlist_at v) (m_IP sample_LVCCS))
            - Q_Analog (net (netlist_at v) (m_IN sample_LVCCS)) = Fin v)
   \<and> m_stamp (m_OP (LVCCS_update_terminals (netlist_at 3) (sample_LVCCS\<lparr>m_vi := Fin 3\<rparr>)))
       = Some (Set3 (Fin (clamp_beta 1 1 3)) (Fin 0) (Fin (clamp_I 1 1 3)))
   \<and> (clamp_beta 1 1 \<longlongrightarrow> 0) at_top
   \<and> (clamp_beta 1 1 \<longlongrightarrow> 0) at_bot
   \<and> (clamp_I 1 1 \<longlongrightarrow> 1) at_top
   \<and> (clamp_I 1 1 \<longlongrightarrow> - 1) at_bot
   \<and> m_G (sample_LVCCS\<lparr>m_G := Fin (- 1)\<rparr>) = Fin (- 1)
   \<and> (- 1 :: real) * 1 / 1 < 0
   \<and> (clamp_I (- 1) 1 \<longlongrightarrow> - 1) at_top
   \<and> (clamp_I (- 1) 1 \<longlongrightarrow> 1) at_bot"
proof -
  have G: "m_G sample_LVCCS = Fin 1" and gfac: "m_gfac sample_LVCCS = Fin 1"
    and cl: "m_cur_limit sample_LVCCS = Fin 1"
    by (simp_all add: sample_LVCCS_def)
  have mult: "(1::real) * 1 \<noteq> 0" and c: "(1::real) \<noteq> 0" and pos: "(0::real) < 1 * 1 / 1"
    by simp_all
  have vi: "\<forall>v. Q_Analog (net (netlist_at v) (m_IP sample_LVCCS))
            - Q_Analog (net (netlist_at v) (m_IN sample_LVCCS)) = Fin v"
    by (simp add: netlist_at_vi)
  note sat = LVCCS_saturation [OF G gfac cl mult c vi]
  from sat have stamp: "m_stamp (m_OP (LVCCS_update_terminals (netlist_at 3)
        (sample_LVCCS\<lparr>m_vi := Fin 3\<rparr>)))
      = Some (Set3 (Fin (clamp_beta 1 1 3)) (Fin 0) (Fin (clamp_I 1 1 3)))"
    by simp
  from sat have beta: "(clamp_beta 1 1 \<longlongrightarrow> 0) at_top" "(clamp_beta 1 1 \<longlongrightarrow> 0) at_bot"
    by simp_all
  from sat pos have cur: "(clamp_I 1 1 \<longlongrightarrow> 1) at_top" "(clamp_I 1 1 \<longlongrightarrow> - 1) at_bot"
    by simp_all
  let ?n = "sample_LVCCS\<lparr>m_G := Fin (- 1)\<rparr>"
  have G': "m_G ?n = Fin (- 1)" and gfac': "m_gfac ?n = Fin 1" and cl': "m_cur_limit ?n = Fin 1"
    by (simp_all add: sample_LVCCS_def)
  have mult': "(- 1 :: real) * 1 \<noteq> 0" and neg: "(- 1 :: real) * 1 / 1 < 0"
    by simp_all
  have vi': "\<forall>v. Q_Analog (net (netlist_at v) (m_IP ?n))
            - Q_Analog (net (netlist_at v) (m_IN ?n)) = Fin v"
    using vi by simp
  from LVCCS_saturation [OF G' gfac' cl' mult' c vi'] neg
  have cur': "(clamp_I (- 1) 1 \<longlongrightarrow> - 1) at_top" "(clamp_I (- 1) 1 \<longlongrightarrow> 1) at_bot"
    by simp_all
  from G gfac cl mult pos vi stamp beta cur G' neg cur' show ?thesis
    by (intro conjI)
qed


section \<open>Opposite terminals\<close>

lemma otherterm_VCCS_reset: "m_otherterm (terminal (VCCS_reset d) a) = m_otherterm (terminal d a)"
  by (cases a) (simp_all add: VCCS_reset_def Let_def set1_def set2_def)

lemma otherterm_LVCCS_update_terminals:
  "m_otherterm (terminal (LVCCS_update_terminals nl d) a) = m_otherterm (terminal d a)"
  by (cases a) (simp_all add: LVCCS_update_terminals_def Let_def set2_def set3_def)

lemma otherterm_VCVS_reset: "m_otherterm (terminal (VCVS_reset d) a) = m_otherterm (terminal d a)"
  by (cases a) (simp_all add: VCVS_reset_def VCCS_reset_def Let_def set1_def set2_def)

lemma start_internal_otherterm:
  fixes d :: "'a nld_VCCS_scheme"
    and register_param :: "string \<Rightarrow> nl_double \<Rightarrow> nl_double" and def_RI :: nl_double
    and s :: setup_t
  defines "d1 \<equiv> fst (start_internal register_param def_RI (d, s))"
  shows "m_otherterm (m_IP d1) = Some IN" and "m_otherterm (m_IN d1) = Some IP"
    and "m_otherterm (m_OP d1) = Some IP" and "m_otherterm (m_OP1 d1) = Some IN"
    and "m_otherterm (m_ON d1) = Some IP" and "m_otherterm (m_ON1 d1) = Some IN"
  unfolding d1_def by (simp_all add: start_internal_def Let_def)

lemma start_internal_links:
  "connect_late_calls (snd (start_internal register_param def_RI (d, s)))
     = connect_late_calls s @ [(OP, OP1), (ON, ON1)]"
  by (simp add: start_internal_def Let_def connect_late_def enregister_def)

text \<open>
  Claim C4. In every device of the four-terminal family, IP and IN are each other's
  opposite terminal from construction on, at all times; OP and OP1, and ON and ON1,
  become each other's opposite terminal exactly once, when the topology is finalized:
  never before the finalization and never more than once. Here \<open>d1\<close> is a device as
  \<open>start_internal\<close> leaves it, and the finalization is the one modelled from the
  specification; reset and update-terminals, which run afterwards, change no opposite
  terminal.
\<close>

theorem four_terminal_cross_references:
  fixes d e :: "'a nld_VCCS_scheme" and l :: nld_LVCCS and w :: nld_VCVS
    and register_param :: "string \<Rightarrow> nl_double \<Rightarrow> nl_double" and def_RI :: nl_double
    and s :: setup_t and nl :: netlist_t
  defines "built \<equiv> start_internal register_param def_RI (d, s\<lparr>connect_late_calls := []\<rparr>)"
  defines "d1 \<equiv> fst built" and "s1 \<equiv> snd built"
  shows "cross_referenced d1 IP IN
       \<and> \<not> cross_referenced d1 OP OP1 \<and> \<not> cross_referenced d1 ON ON1
       \<and> m_otherterm (m_OP d1) = Some IP \<and> m_otherterm (m_OP1 d1) = Some IN
       \<and> m_otherterm (m_ON d1) = Some IP \<and> m_otherterm (m_ON1 d1) = Some IN
       \<and> connect_late_calls s1 = [(OP, OP1), (ON, ON1)]
       \<and> (\<exists>d2. finalize s1 (False, d1) = Inr (True, d2)
             \<and> cross_referenced d2 IP IN
             \<and> cross_referenced d2 OP OP1 \<and> cross_referenced d2 ON ON1
             \<and> finalize s1 (True, d2) = Inl Finalized_twice)
       \<and> (\<forall>a b. cross_referenced (VCCS_reset e) a b = cross_referenced e a b)
       \<and> (\<forall>a b. cross_referenced (LVCCS_update_terminals nl l) a b = cross_referenced l a b)
       \<and> (\<forall>a b. cross_referenced (VCVS_reset w) a b = cross_referenced w a b)"
proof -
  note ot = start_internal_otherterm
    [where d = d and s = "s\<lparr>connect_late_calls := []\<rparr>"
       and register_param = register_param and def_RI = def_RI, folded built_def d1_def]
  have links: "connect_late_calls s1 = [(OP, OP1), (ON, ON1)]"
    unfolding s1_def built_def by (simp add: start_internal_links)
  have before: "cross_referenced d1 IP IN
       \<and> \<not> cross_referenced d1 OP OP1 \<and> \<not> cross_referenced d1 ON ON1"
    by (simp add: cross_referenced_def ot)
  let ?d2 = "fold bind_opposite (connect_late_calls s1) d1"
  have fin: "finalize s1 (False, d1) = Inr (True, ?d2)"
    and again: "finalize s1 (True, ?d2) = Inl Finalized_twice"
    by (simp_all add: finalize_def)
  have after: "cross_referenced ?d2 IP IN
       \<and> cross_referenced ?d2 OP OP1 \<and> cross_referenced ?d2 ON ON1"
    by (simp add: links cross_referenced_def ot)
  have kept: "(\<forall>a b. cross_referenced (VCCS_reset e) a b = cross_referenced e a b)
       \<and> (\<forall>a b. cross_referenced (LVCCS_update_terminals nl l) a b = cross_referenced l a b)
       \<and> (\<forall>a b. cross_referenced (VCVS_reset w) a b = cross_referenced w a b)"
    by (simp add: cross_referenced_def otherterm_VCCS_reset otherterm_LVCCS_update_terminals
        otherterm_VCVS_reset)
  from fin again after have "\<exists>d2. finalize s1 (False, d1) = Inr (True, d2)
             \<and> cross_referenced d2 IP IN
             \<and> cross_referenced d2 OP OP1 \<and> cross_referenced d2 ON ON1
             \<and> finalize s1 (True, d2) = Inl Finalized_twice"
    by blast
  with before ot links kept show ?thesis
    by blast
qed



section \<open>Rounding to the nearest double\<close>

subsection \<open>Rounding to an integer, ties to even\<close>

lemma round_even_of_int [simp]: "round_even (of_int n) = n"
  by (simp add: round_even_def)

lemma round_even_numeral [simp]: "round_even (numeral n) = numeral n"
  using round_even_of_int [of "numeral n"] by simp

lemma round_even_zero [simp]: "round_even 0 = 0"
  using round_even_of_int [of 0] by simp

lemma round_even_bounds: "of_int (round_even y) \<le> y + 1 / 2" "y - 1 / 2 \<le> of_int (round_even y)"
  unfolding round_even_def Let_def by (auto simp: not_less) linarith+

lemma round_even_near:
  assumes "of_int m - 1 / 2 < y" and "y < of_int m + 1 / 2"
  shows "round_even y = m"
proof -
  have "of_int (round_even y) < (of_int m :: real) + 1" "(of_int m :: real) - 1 < of_int (round_even y)"
    using round_even_bounds [of y] assms by linarith+
  then have "round_even y < m + 1" "m - 1 < round_even y"
    by linarith+
  then show ?thesis by linarith
qed






subsection \<open>Powers of two\<close>

lemma pow2_powr: "pow2 k = 2 powr real_of_int k"
  by (simp add: pow2_def powr_real_of_int inverse_eq_divide)

lemma pow2_pos: "0 < pow2 k"
  by (simp add: pow2_powr)

lemma pow2_add: "pow2 (a + b) = pow2 a * pow2 b"
  by (simp add: pow2_powr powr_add)

lemma pow2_mono: "a \<le> b \<Longrightarrow> pow2 a \<le> pow2 b"
  unfolding pow2_powr by (rule powr_mono) simp_all

lemma pow2_nat: "pow2 (int n) = 2 ^ n"
  by (simp add: pow2_def)

lemma pow2_neg_nat: "pow2 (- int n) = 1 / 2 ^ n"
  by (simp add: pow2_powr powr_minus powr_realpow inverse_eq_divide)

lemma pow2_up53: "pow2 (e + 1) = pow2 (e - 52) * 2 ^ 53"
proof -
  have "e + 1 = (e - 52) + int 53"
    by simp
  then have "pow2 (e + 1) = pow2 ((e - 52) + int 53)"
    by (rule arg_cong)
  also have "\<dots> = pow2 (e - 52) * pow2 (int 53)"
    by (rule pow2_add)
  finally show ?thesis
    by (simp only: pow2_nat)
qed

lemma pow2_up52: "pow2 e = pow2 (e - 52) * 2 ^ 52"
proof -
  have "e = (e - 52) + int 52"
    by simp
  then have "pow2 e = pow2 ((e - 52) + int 52)"
    by (rule arg_cong)
  also have "\<dots> = pow2 (e - 52) * pow2 (int 52)"
    by (rule pow2_add)
  finally show ?thesis
    by (simp only: pow2_nat)
qed

subsection \<open>Binades\<close>






lemma exponent64_eq:
  assumes "0 < a" and "pow2 e \<le> a" and "a < pow2 (e + 1)" and "- 1022 \<le> e"
  shows "exponent64 a = e"
proof -
  have "2 powr real_of_int e \<le> a \<and> a < 2 powr real_of_int (e + 1)"
    using assms(2,3) by (simp only: pow2_powr)
  then have "\<lfloor>log 2 a\<rfloor> = e"
    using floor_log_eq_powr_iff [of a 2 e] assms(1) by simp
  then show ?thesis
    using assms by (simp add: exponent64_def)
qed



subsection \<open>Rounding\<close>

lemma rne64_zero [simp]: "rne64 0 = 0"
  by (simp add: rne64_def)

lemma exponent64_minus [simp]: "exponent64 (- x) = exponent64 x"
  by (simp add: exponent64_def)

lemma ulp64_minus [simp]: "ulp64 (- x) = ulp64 x"
  by (simp add: ulp64_def)


lemma rne64_pos_eq:
  assumes "0 < x"
  shows "rne64 x = of_int (round_even (x / ulp64 x)) * ulp64 x"
  using assms by (simp add: rne64_def)






subsection \<open>Evaluation\<close>

lemma rne64_small:
  fixes k :: nat
  assumes "0 < x" and "2 ^ 52 \<le> x * 2 ^ k" and "x * 2 ^ k < 2 ^ 53" and "k \<le> 1074"
  shows "rne64 x = of_int (round_even (x * 2 ^ k)) / 2 ^ k"
proof -
  have p: "pow2 (52 - int k - 52) = 1 / 2 ^ k"
    using pow2_neg_nat [of k] by simp
  have "(1 / 2 ^ k) * 2 ^ 52 \<le> x"
    using assms(2) by (simp add: field_simps)
  then have lo: "pow2 (52 - int k) \<le> x"
    by (simp only: pow2_up52 [of "52 - int k"] p)
  have "x < (1 / 2 ^ k) * 2 ^ 53"
    using assms(3) by (simp add: field_simps)
  then have hi: "x < pow2 (52 - int k + 1)"
    by (simp only: pow2_up53 [of "52 - int k"] p)
  have e: "exponent64 x = 52 - int k"
    by (rule exponent64_eq [OF assms(1) lo hi]) (use assms(4) in simp)
  have u: "ulp64 x = 1 / 2 ^ k"
    by (simp only: ulp64_def e p)
  show ?thesis
    by (simp add: rne64_pos_eq [OF assms(1)] u)
qed




lemma fl_eq:
  assumes "rne64 x = r" and "\<bar>r\<bar> < pow2 1024"
  shows "fl x = Fin r"
proof -
  from assms(2) have "\<not> pow2 1024 \<le> r" "\<not> r \<le> - pow2 1024"
    by linarith+
  then show ?thesis
    by (simp add: fl_def Let_def assms(1))
qed

lemma below_overflow:
  assumes "\<bar>r\<bar> \<le> 2 ^ 100"
  shows "\<bar>r\<bar> < pow2 1024"
proof -
  have "(2::real) ^ 100 = pow2 (int 100)"
    by (simp only: pow2_nat)
  also have "\<dots> \<le> pow2 1023"
    by (rule pow2_mono) simp
  also have "\<dots> < pow2 1024"
    using pow2_add [of 1023 1] pow2_pos [of 1023] by (simp add: pow2_def)
  finally show ?thesis
    using assms by linarith
qed

subsection \<open>Values used below\<close>







subsection \<open>The hyperbolic tangent of a tiny double\<close>




subsection \<open>Signs and bounds of the rounded operations\<close>















section \<open>The damped estimate of the current-limited source\<close>







subsection \<open>Sample runs in double arithmetic\<close>



lemma fl_zero: "fl 0 = Fin 0"
  by (rule fl_eq [OF rne64_zero]) (rule below_overflow, simp)
























section \<open>Reset of the voltage-controlled voltage source\<close>

lemma VCVS_reset64_OP:
  "m_stamp (m_OP (VCVS_reset64 d))
     = Some (Set2 (mul64 (m_G d) (div64 (Fin 1) (m_RO d))) (Fin 0))"
  by (simp add: VCVS_reset64_def VCCS_reset64_def Let_def set1_def set2_def)

lemma third64: "fl (1 / 3) = Fin (6004799503160661 / 2 ^ 54)"
proof (rule fl_eq)
  have "round_even (1 / 3 * 2 ^ 54) = 6004799503160661"
    by (rule round_even_near) simp_all
  moreover have "rne64 (1 / 3) = of_int (round_even (1 / 3 * 2 ^ 54)) / 2 ^ 54"
    by (rule rne64_small) simp_all
  ultimately show "rne64 (1 / 3) = 6004799503160661 / 2 ^ 54"
    by simp
  show "\<bar>6004799503160661 / 2 ^ 54 :: real\<bar> < pow2 1024"
    by (rule below_overflow) simp
qed

lemma five_thirds64:
  "fl (5 * (6004799503160661 / 2 ^ 54)) = Fin (7505999378950826 / 2 ^ 52)"
proof (rule fl_eq)
  let ?x = "5 * (6004799503160661 / 2 ^ 54) :: real"
  have "round_even (?x * 2 ^ 52) = 7505999378950826"
    by (rule round_even_near) simp_all
  moreover have "rne64 ?x = of_int (round_even (?x * 2 ^ 52)) / 2 ^ 52"
    by (rule rne64_small) simp_all
  ultimately show "rne64 ?x = 7505999378950826 / 2 ^ 52"
    by simp
  show "\<bar>7505999378950826 / 2 ^ 52 :: real\<bar> < pow2 1024"
    by (rule below_overflow) simp
qed

lemma quotient64: "fl (5 / 3) = Fin (7505999378950827 / 2 ^ 52)"
proof (rule fl_eq)
  have "round_even (5 / 3 * 2 ^ 52) = 7505999378950827"
    by (rule round_even_near) simp_all
  moreover have "rne64 (5 / 3) = of_int (round_even (5 / 3 * 2 ^ 52)) / 2 ^ 52"
    by (rule rne64_small) simp_all
  ultimately show "rne64 (5 / 3) = 7505999378950827 / 2 ^ 52"
    by simp
  show "\<bar>7505999378950827 / 2 ^ 52 :: real\<bar> < pow2 1024"
    by (rule below_overflow) simp
qed

text \<open>
  Claim C8, as stated: after the reset of a VCVS the multiplier equals \<open>G/RO\<close> and OP is
  stamped with \<open>+G/RO\<close>. The code multiplies \<open>G\<close> by the stored gain factor \<open>1/RO\<close>, and
  each of the two operations rounds. With \<open>G = 5\<close> and \<open>RO = 3\<close> the gain factor is
  \<open>6004799503160661 / 2\<^sup>5\<^sup>4\<close> and OP is stamped with \<open>7505999378950826 / 2\<^sup>5\<^sup>2\<close>, while the
  quotient \<open>5/3\<close> in double arithmetic is \<open>7505999378950827 / 2\<^sup>5\<^sup>2\<close>.
\<close>

theorem VCVS_reset_quotient_counterexample:
  "m_G sample_VCVS = Fin 5 \<and> m_RO sample_VCVS = Fin 3
   \<and> m_gfac (VCVS_reset64 sample_VCVS) = Fin (6004799503160661 / 2 ^ 54)
   \<and> m_stamp (m_OP (VCVS_reset64 sample_VCVS))
       = Some (Set2 (Fin (7505999378950826 / 2 ^ 52)) (Fin 0))
   \<and> div64 (m_G sample_VCVS) (m_RO sample_VCVS) = Fin (7505999378950827 / 2 ^ 52)
   \<and> m_stamp (m_OP (VCVS_reset64 sample_VCVS))
       \<noteq> Some (Set2 (div64 (m_G sample_VCVS) (m_RO sample_VCVS)) (Fin 0))"
proof -
  have G: "m_G sample_VCVS = Fin 5" and RO: "m_RO sample_VCVS = Fin 3"
    by (simp_all add: sample_VCVS_def)
  have gfac: "div64 (Fin 1) (Fin 3) = Fin (6004799503160661 / 2 ^ 54)"
    using third64 by simp
  have "m_gfac (VCVS_reset64 sample_VCVS) = div64 (Fin 1) (m_RO sample_VCVS)"
    by (simp add: VCVS_reset64_def VCCS_reset64_def Let_def)
  then have one: "m_gfac (VCVS_reset64 sample_VCVS) = Fin (6004799503160661 / 2 ^ 54)"
    by (simp only: RO gfac)
  have "mul64 (Fin 5) (Fin (6004799503160661 / 2 ^ 54)) = Fin (7505999378950826 / 2 ^ 52)"
    by (simp only: mul64.simps five_thirds64)
  then have two: "m_stamp (m_OP (VCVS_reset64 sample_VCVS))
      = Some (Set2 (Fin (7505999378950826 / 2 ^ 52)) (Fin 0))"
    by (simp only: VCVS_reset64_OP G RO gfac)
  have three: "div64 (m_G sample_VCVS) (m_RO sample_VCVS) = Fin (7505999378950827 / 2 ^ 52)"
    using quotient64 by (simp add: G RO)
  have "m_stamp (m_OP (VCVS_reset64 sample_VCVS))
      \<noteq> Some (Set2 (div64 (m_G sample_VCVS) (m_RO sample_VCVS)) (Fin 0))"
    by (simp only: two three) simp
  with G RO one two three show ?thesis
    by (intro conjI)
qed

text \<open>
  Claim C8, amended. The reset of a VCVS first sets the gain factor to \<open>1/RO\<close> and then
  runs the reset of the VCCS. Afterwards the multiplier is the product \<open>G \<sqdot> (1/RO)\<close> of the
  gain and the stored gain factor, which in double arithmetic can differ from the
  quotient \<open>G/RO\<close> in the last place: OP carries \<open>+G \<sqdot> (1/RO)\<close>, OP1 \<open>-G \<sqdot> (1/RO)\<close>, ON
  \<open>-G \<sqdot> (1/RO)\<close>, ON1 \<open>+G \<sqdot> (1/RO)\<close>, and IP and IN each \<open>1/RI\<close>; the two further output
  terminals OP2 and ON2 each carry the conductance \<open>1/RO\<close>. This holds of the rounded
  reset and of the reset in exact arithmetic alike.
\<close>

theorem VCVS_reset_stamps:
  fixes d :: nld_VCVS
  defines "r \<equiv> VCVS_reset64 d" and "gf \<equiv> div64 (Fin 1) (m_RO d)"
    and "e \<equiv> VCVS_reset d"
  shows "m_gfac r = gf
       \<and> r\<lparr>m_OP2 := m_OP2 d, m_ON2 := m_ON2 d\<rparr> = VCCS_reset64 (d\<lparr>m_gfac := gf\<rparr>)
       \<and> m_stamp (m_OP r) = Some (Set2 (mul64 (m_G d) gf) (Fin 0))
       \<and> m_stamp (m_OP1 r) = Some (Set2 (- mul64 (m_G d) gf) (Fin 0))
       \<and> m_stamp (m_ON r) = Some (Set2 (- mul64 (m_G d) gf) (Fin 0))
       \<and> m_stamp (m_ON1 r) = Some (Set2 (mul64 (m_G d) gf) (Fin 0))
       \<and> m_stamp (m_IP r) = Some (Set1 (div64 (Fin 1) (m_RI d)))
       \<and> m_stamp (m_IN r) = Some (Set1 (div64 (Fin 1) (m_RI d)))
       \<and> m_stamp (m_OP2 r) = Some (Set1 gf)
       \<and> m_stamp (m_ON2 r) = Some (Set1 gf)
       \<and> m_gfac e = Fin 1 / m_RO d
       \<and> e\<lparr>m_OP2 := m_OP2 d, m_ON2 := m_ON2 d\<rparr> = VCCS_reset (d\<lparr>m_gfac := Fin 1 / m_RO d\<rparr>)
       \<and> m_stamp (m_OP e) = Some (Set2 (m_G d * (Fin 1 / m_RO d)) (Fin 0))
       \<and> m_stamp (m_OP1 e) = Some (Set2 (- (m_G d * (Fin 1 / m_RO d))) (Fin 0))
       \<and> m_stamp (m_ON e) = Some (Set2 (- (m_G d * (Fin 1 / m_RO d))) (Fin 0))
       \<and> m_stamp (m_ON1 e) = Some (Set2 (m_G d * (Fin 1 / m_RO d)) (Fin 0))
       \<and> m_stamp (m_IP e) = Some (Set1 (Fin 1 / m_RI d))
       \<and> m_stamp (m_IN e) = Some (Set1 (Fin 1 / m_RI d))
       \<and> m_stamp (m_OP2 e) = Some (Set1 (Fin 1 / m_RO d))
       \<and> m_stamp (m_ON2 e) = Some (Set1 (Fin 1 / m_RO d))"
  unfolding r_def gf_def e_def
  by (simp add: VCVS_reset64_def VCCS_reset64_def VCVS_reset_def VCCS_reset_def Let_def
      set1_def set2_def)

end
